theory Spec2Isabelle
  imports Main "HOL-Library.Word"
begin

section \<open>Buffers, big-endian integers, dates\<close>

text \<open>
  A Node \<open>Buffer\<close> is a list of bytes and \<open>a.equals(b)\<close> is equality of the two lists.
  \<open>Buffer.alloc(size, fill)\<close> takes the size first and the fill byte second.
  A \<open>Date\<close> is its \<open>getTime()\<close>, milliseconds as an integer.
\<close>

type_synonym Buffer = "8 word list"

type_synonym Date = int

definition Buffer_alloc :: "nat \<Rightarrow> 8 word \<Rightarrow> Buffer" where
  "Buffer_alloc len fill = replicate len fill"

definition toBigIntBE :: "Buffer \<Rightarrow> nat" where
  "toBigIntBE buf = foldl (\<lambda>acc b. acc * 256 + unat b) 0 buf"

definition toBufferBE :: "nat \<Rightarrow> nat \<Rightarrow> Buffer" where
  "toBufferBE num width = map (\<lambda>i. of_nat (num div 256 ^ (width - 1 - i))) [0..<width]"

text \<open>\<open>xs[i]\<close> of JavaScript: \<open>undefined\<close> (here \<open>None\<close>) out of range.\<close>

definition at_index :: "'a list \<Rightarrow> nat \<Rightarrow> 'a option" where
  "at_index xs i = (if i < length xs then Some (xs ! i) else None)"

text \<open>\<open>Array.prototype.findIndex\<close>: the first position that satisfies the predicate, or \<open>-1\<close>.\<close>

fun findIndexFrom :: "nat \<Rightarrow> ('a \<Rightarrow> bool) \<Rightarrow> 'a list \<Rightarrow> int" where
  "findIndexFrom i P [] = - 1"
| "findIndexFrom i P (x # xs) = (if P x then int i else findIndexFrom (Suc i) P xs)"

definition findIndex :: "('a \<Rightarrow> bool) \<Rightarrow> 'a list \<Rightarrow> int" where
  "findIndex P xs = findIndexFrom 0 P xs"

section \<open>The decoded rollup and the block\<close>

datatype ProofId = DEPOSIT | WITHDRAW | SEND | ACCOUNT | DEFI_DEPOSIT | DEFI_CLAIM | PADDING

text \<open>
  The classes \<open>InnerProofData\<close>, \<open>RollupProofData\<close>, \<open>BridgeId\<close>, \<open>DefiInteractionNote\<close> and
  \<open>Block\<close> are imported by \<open>world_state.ts\<close>. An object is the record of what
  \<open>world_state.ts\<close> reads from it: its fields, and the results of the methods it calls
  (\<open>toBuffer()\<close>, \<open>toBigInt()\<close>, \<open>getTotalDeposited(assetId)\<close>, ...).
\<close>

record InnerProofData =
  proofId :: ProofId
  txId :: Buffer
  noteCommitment1 :: Buffer
  noteCommitment2 :: Buffer
  nullifier1 :: Buffer
  nullifier2 :: Buffer
  ipd_toBuffer :: Buffer

text \<open>
  Modelled from the spec: \<open>InnerProofData.isPadding()\<close> is not among the sources. The spec's
  data model lists padding as one of the values of \<open>proofId\<close> (section 3, InnerProof).
\<close>

definition isPadding :: "InnerProofData \<Rightarrow> bool" where
  "isPadding tx = (proofId tx = PADDING)"

record BridgeId =
  bid_toBigInt :: int
  bid_toBuffer :: Buffer
  outputAssetIdA :: nat
  outputAssetIdB :: nat

record DefiInteractionNote =
  din_bridgeId :: BridgeId
  din_nonce :: nat
  totalInputValue :: int
  totalOutputValueA :: int
  totalOutputValueB :: int
  din_result :: bool
  din_toBuffer :: Buffer

record RollupProofData =
  rollupId :: nat
  rollupSize :: nat
  rollupHash :: Buffer
  dataStartIndex :: nat
  newDataRoot :: Buffer
  newNullRoot :: Buffer
  newDataRootsRoot :: Buffer
  newDefiRoot :: Buffer
  bridgeIds :: "Buffer list"
  assetIds :: "nat list"
  defiInteractionNotes :: "Buffer list"
  innerProofData :: "InnerProofData list"
  getTotalDeposited :: "nat \<Rightarrow> int"
  getTotalWithdrawn :: "nat \<Rightarrow> int"
  getTotalDefiDeposit :: "nat \<Rightarrow> int"
  getTotalFees :: "nat \<Rightarrow> int"

record Block =
  txHash :: Buffer
  created :: Date
  rollupProofData :: Buffer
  offchainTxData :: "Buffer list"
  interactionResult :: "DefiInteractionNote list"
  gasUsed :: nat
  gasPrice :: nat

section \<open>The tree store\<close>

text \<open>
  Modelled from the spec: the class \<open>WorldStateDb\<close> is not among the sources. Section 4.1
  gives it four trees, each with a size and a root, \<open>put\<close> at an absolute index,
  \<open>commit\<close> and \<open>rollback\<close>; reads see the committed state plus the staged writes
  (sections 4.1 and 9). The model keeps, for each tree, the committed leaves and the
  leaves a reader sees (\<open>working\<close>: the committed ones overlaid with the staged writes).
  \<open>commit\<close> makes the working state the committed one, \<open>rollback\<close> restores it from the
  committed one. A tree's size is one more than the highest index written. Its root is
  the tree's hash of its leaves, a function the store carries (\<open>merkleRoot\<close>).
\<close>

datatype RollupTreeId = DATA | NULL | ROOT | DEFI

record MerkleTree =
  leaves :: "nat \<rightharpoonup> Buffer"
  tree_size :: nat

record WorldStateDb =
  committed :: "RollupTreeId \<Rightarrow> MerkleTree"
  working :: "RollupTreeId \<Rightarrow> MerkleTree"
  merkleRoot :: "RollupTreeId \<Rightarrow> (nat \<rightharpoonup> Buffer) \<Rightarrow> Buffer"

definition getSize :: "WorldStateDb \<Rightarrow> RollupTreeId \<Rightarrow> nat" where
  "getSize db t = tree_size (working db t)"

definition getRoot :: "WorldStateDb \<Rightarrow> RollupTreeId \<Rightarrow> Buffer" where
  "getRoot db t = merkleRoot db t (leaves (working db t))"

definition put :: "WorldStateDb \<Rightarrow> RollupTreeId \<Rightarrow> nat \<Rightarrow> Buffer \<Rightarrow> WorldStateDb" where
  "put db t i v =
     db\<lparr>working := (working db)
           (t := \<lparr>leaves = (leaves (working db t))(i \<mapsto> v),
                  tree_size = max (tree_size (working db t)) (i + 1)\<rparr>)\<rparr>"

definition commit :: "WorldStateDb \<Rightarrow> WorldStateDb" where
  "commit db = db\<lparr>committed := working db\<rparr>"

definition rollback :: "WorldStateDb \<Rightarrow> WorldStateDb" where
  "rollback db = db\<lparr>working := committed db\<rparr>"

text \<open>
  The calls \<open>world_state.ts\<close> makes on the tree store, in order, are a list of
  \<open>TreeOp\<close>; \<open>run\<close> is their effect on the store.
\<close>

datatype TreeOp = Put RollupTreeId nat Buffer | Commit | Rollback

fun exec :: "WorldStateDb \<Rightarrow> TreeOp \<Rightarrow> WorldStateDb" where
  "exec db (Put t i v) = put db t i v"
| "exec db Commit = commit db"
| "exec db Rollback = rollback db"

definition run :: "WorldStateDb \<Rightarrow> TreeOp list \<Rightarrow> WorldStateDb" where
  "run db ops = foldl exec db ops"


fun isPutTo :: "RollupTreeId \<Rightarrow> TreeOp \<Rightarrow> bool" where
  "isPutTo t (Put t' i v) = (t' = t)"
| "isPutTo t Commit = False"
| "isPutTo t Rollback = False"

section \<open>addRollupToWorldState\<close>

text \<open>
  The loop of lines 436-450, from position \<open>i\<close> on: both note commitments of every inner
  proof go to the DATA tree; the nullifiers go to the NULL tree when the proof is not
  padding and the nullifier is not zero.
\<close>

fun putInnerProofs :: "nat \<Rightarrow> nat \<Rightarrow> InnerProofData list \<Rightarrow> TreeOp list" where
  "putInnerProofs dsi i [] = []"
| "putInnerProofs dsi i (tx # txs) =
     [Put DATA (dsi + i * 2) (noteCommitment1 tx),
      Put DATA (dsi + i * 2 + 1) (noteCommitment2 tx)]
     @ (if \<not> isPadding tx then
          (if toBigIntBE (nullifier1 tx) \<noteq> 0
           then [Put NULL (toBigIntBE (nullifier1 tx)) (toBufferBE 1 32)] else [])
          @ (if toBigIntBE (nullifier2 tx) \<noteq> 0
             then [Put NULL (toBigIntBE (nullifier2 tx)) (toBufferBE 1 32)] else [])
        else [])
     @ putInnerProofs dsi (Suc i) txs"

text \<open>
  The loop of lines 455-461, from slot \<open>i\<close> on. The note is compared with
  \<open>Buffer.alloc(0, 32)\<close>: size 0, fill byte 32.
\<close>

fun putDefiNotes :: "nat \<Rightarrow> nat \<Rightarrow> Buffer list \<Rightarrow> TreeOp list" where
  "putDefiNotes interactionNoteStartIndex i [] = []"
| "putDefiNotes interactionNoteStartIndex i (note # notes) =
     (if note = Buffer_alloc 0 32 then []
      else [Put DEFI (interactionNoteStartIndex + i) note])
     @ putDefiNotes interactionNoteStartIndex (Suc i) notes"

text \<open>
  \<open>addRollupToWorldState\<close> (lines 413-464) as the list of its calls on the tree store.
  \<open>K\<close> is \<open>RollupProofData.NUM_BRIDGE_CALLS_PER_BLOCK\<close>, a constant of a class that is
  not among the sources. The root written to the ROOT tree is read after the DATA and
  NULL writes.
\<close>

definition addRollupToWorldState :: "nat \<Rightarrow> WorldStateDb \<Rightarrow> RollupProofData \<Rightarrow> TreeOp list" where
  "addRollupToWorldState K db rollup =
     (let currentSize = getSize db DATA in
      if currentSize > dataStartIndex rollup then []
      else
        let ops1 = putInnerProofs (dataStartIndex rollup) 0 (innerProofData rollup);
            db1 = run db ops1;
            op2 = Put ROOT (rollupId rollup + 1) (getRoot db1 DATA);
            interactionNoteStartIndex = rollupId rollup * K;
            ops3 = putDefiNotes interactionNoteStartIndex 0 (defiInteractionNotes rollup)
        in ops1 @ [op2] @ ops3 @ [Commit])"

section \<open>Relational entities and the calls on the relational store\<close>

text \<open>
  \<open>TxType\<close> is a numeric enum. \<open>undefined\<close> in an optional field is \<open>None\<close>.
\<close>

type_synonym TxType = nat

record OffchainDefiDepositData =
  od_bridgeId :: BridgeId
  od_depositValue :: int
  od_partialState :: Buffer
  od_partialStateSecretEphPubKey :: Buffer
  od_txFee :: int

record TreeClaimNote =
  cn_value :: int
  cn_bridgeId :: BridgeId
  cn_interactionNonce :: int
  cn_fee :: int
  cn_partialState :: Buffer
  cn_inputNullifier :: Buffer

record ClaimDao =
  cl_id :: nat
  cl_nullifier :: Buffer
  cl_bridgeId :: int
  cl_depositValue :: int
  cl_partialState :: Buffer
  cl_partialStateSecretEphPubKey :: Buffer
  cl_inputNullifier :: Buffer
  cl_interactionNonce :: int
  cl_fee :: int
  cl_created :: Date

record TxDao =
  tx_id :: Buffer
  tx_proofData :: Buffer
  tx_offchainTxData :: "Buffer option"
  tx_nullifier1 :: "Buffer option"
  tx_nullifier2 :: "Buffer option"
  tx_created :: Date
  tx_mined :: "Date option"
  tx_txType :: TxType
  tx_excessGas :: int

record RollupProofDao =
  rp_id :: Buffer
  rp_txs :: "TxDao list"
  rp_rollupSize :: nat
  rp_dataStartIndex :: nat
  rp_proofData :: Buffer
  rp_created :: Date

record AssetMetricsDao =
  am_rollupId :: nat
  am_assetId :: nat
  am_contractBalance :: int
  am_totalDeposited :: int
  am_totalWithdrawn :: int
  am_totalDefiDeposited :: int
  am_totalDefiClaimed :: int
  am_totalFees :: int

record RollupDao =
  r_id :: nat
  r_dataRoot :: Buffer
  r_rollupProof :: RollupProofDao
  r_ethTxHash :: Buffer
  r_mined :: Date
  r_created :: Date
  r_interactionResult :: Buffer
  r_gasPrice :: Buffer
  r_gasUsed :: nat
  r_assetMetrics :: "AssetMetricsDao list"

record AccountDao =
  aliasHash :: Buffer
  accountPubKey :: Buffer
  nonce :: nat

text \<open>
  The class \<open>RollupDb\<close> is an external collaborator. The writes \<open>world_state.ts\<close> makes
  on it are a list of \<open>DbOp\<close>, each with the arguments of the call; what it reads from
  it (\<open>getRollupProof\<close>, \<open>getAssetMetrics\<close>) is given by \<open>RollupDbReads\<close>. The calls on
  the metrics sink are a list of \<open>MetricOp\<close>; \<open>rollupReceived\<close> is recorded without its
  argument.
\<close>

datatype DbOp =
    AddClaim ClaimDao
  | ConfirmClaimed Buffer Date
  | UpdateClaimsWithResultRollupId nat nat
  | ConfirmMined nat nat nat Date Buffer "DefiInteractionNote list" "Buffer list"
      "AssetMetricsDao list"
  | AddRollup RollupDao
  | AddAccounts "AccountDao list"

datatype MetricOp = TxSettlementDuration int | RollupReceived

record RollupDbReads =
  db_getRollupProof :: "Buffer \<Rightarrow> RollupProofDao option"
  db_getAssetMetrics :: "nat \<Rightarrow> AssetMetricsDao option"

datatype Error = DecodeError | OffchainDataError | TypeError | RootMismatch RollupTreeId Buffer

text \<open>
  What \<open>world_state.ts\<close> calls outside its own file: the static constant and decoders of
  classes that are not among the sources, the note algorithms, the tx type of an inner
  proof and the chain's rollup balance. A decoder that throws returns \<open>None\<close>.
\<close>

record Env =
  NUM_BRIDGE_CALLS_PER_BLOCK :: nat
  RollupProofData_fromBuffer :: "Buffer \<Rightarrow> RollupProofData option"
  OffchainDefiDepositData_fromBuffer :: "Buffer \<Rightarrow> OffchainDefiDepositData option"
  claimNoteCommitment :: "TreeClaimNote \<Rightarrow> Buffer"
  claimNoteNullifier :: "Buffer \<Rightarrow> Buffer"
  getTxTypeFromInnerProofData :: "InnerProofData \<Rightarrow> TxType"
  getRollupBalance :: "nat \<Rightarrow> int"

section \<open>processDefiProofs\<close>

text \<open>
  The body of the \<open>DEFI_DEPOSIT\<close> case (lines 276-297): the claim built from the inner
  proof at position \<open>i\<close>, the decoded off-chain data and the time read by \<open>new Date()\<close>.
  \<open>txFee >> BigInt(1)\<close> is \<open>drop_bit 1\<close>.
\<close>

definition defiDepositClaim ::
  "Env \<Rightarrow> RollupProofData \<Rightarrow> nat \<Rightarrow> InnerProofData \<Rightarrow> OffchainDefiDepositData \<Rightarrow> Date \<Rightarrow> ClaimDao" where
  "defiDepositClaim env rollup i proofData d now =
     (let fee = od_txFee d - drop_bit 1 (od_txFee d);
          index = dataStartIndex rollup + i * 2;
          interactionNonce =
            findIndex (\<lambda>bridge. bridge = bid_toBuffer (od_bridgeId d)) (bridgeIds rollup)
            + int (rollupId rollup * NUM_BRIDGE_CALLS_PER_BLOCK env);
          inputNullifier = nullifier1 proofData;
          note = \<lparr>cn_value = od_depositValue d, cn_bridgeId = od_bridgeId d,
                  cn_interactionNonce = interactionNonce, cn_fee = fee,
                  cn_partialState = od_partialState d, cn_inputNullifier = inputNullifier\<rparr>;
          nullifier = claimNoteNullifier env (claimNoteCommitment env note)
      in \<lparr>cl_id = index, cl_nullifier = nullifier,
          cl_bridgeId = bid_toBigInt (od_bridgeId d),
          cl_depositValue = od_depositValue d,
          cl_partialState = od_partialState d,
          cl_partialStateSecretEphPubKey = od_partialStateSecretEphPubKey d,
          cl_inputNullifier = inputNullifier,
          cl_interactionNonce = interactionNonce,
          cl_fee = fee, cl_created = now\<rparr>)"

text \<open>
  \<open>OffchainDefiDepositData.fromBuffer(offchainTxData[offChainIndex])\<close>: it throws on
  \<open>undefined\<close> and on a buffer it cannot decode.
\<close>

definition readOffchainDefiDepositData :: "Env \<Rightarrow> Buffer list \<Rightarrow> nat \<Rightarrow> OffchainDefiDepositData option" where
  "readOffchainDefiDepositData env offchain offChainIndex =
     (case at_index offchain offChainIndex of
        None \<Rightarrow> None
      | Some buf \<Rightarrow> OffchainDefiDepositData_fromBuffer env buf)"

text \<open>
  The loop of lines 269-306 from position \<open>i\<close> with the running \<open>offChainIndex\<close>: the
  calls made on the store and the exception that ended the loop, if any. \<open>clock i\<close> is
  the time \<open>new Date()\<close> returns at position \<open>i\<close>.
\<close>

fun processInnerProofs ::
  "Env \<Rightarrow> RollupProofData \<Rightarrow> Buffer list \<Rightarrow> Block \<Rightarrow> (nat \<Rightarrow> Date) \<Rightarrow> nat \<Rightarrow> nat
     \<Rightarrow> InnerProofData list \<Rightarrow> DbOp list \<times> Error option" where
  "processInnerProofs env rollup offchain block clock i offChainIndex [] = ([], None)"
| "processInnerProofs env rollup offchain block clock i offChainIndex (proofData # rest) =
     (if isPadding proofData
      then processInnerProofs env rollup offchain block clock (Suc i) offChainIndex rest
      else if proofId proofData = DEFI_DEPOSIT then
        (case readOffchainDefiDepositData env offchain offChainIndex of
           None \<Rightarrow> ([], Some OffchainDataError)
         | Some d \<Rightarrow>
             (let r = processInnerProofs env rollup offchain block clock (Suc i) (Suc offChainIndex) rest
              in (AddClaim (defiDepositClaim env rollup i proofData d (clock i)) # fst r, snd r)))
      else if proofId proofData = DEFI_CLAIM then
        (let r = processInnerProofs env rollup offchain block clock (Suc i) (Suc offChainIndex) rest
         in (ConfirmClaimed (nullifier1 proofData) (created block) # fst r, snd r))
      else processInnerProofs env rollup offchain block clock (Suc i) (Suc offChainIndex) rest)"

definition processDefiProofs ::
  "Env \<Rightarrow> RollupProofData \<Rightarrow> Buffer list \<Rightarrow> Block \<Rightarrow> (nat \<Rightarrow> Date) \<Rightarrow> DbOp list \<times> Error option" where
  "processDefiProofs env rollup offchain block clock =
     (let r = processInnerProofs env rollup offchain block clock 0 0 (innerProofData rollup) in
      case snd r of
        Some e \<Rightarrow> (fst r, Some e)
      | None \<Rightarrow>
          (fst r @ map (\<lambda>defiNote. UpdateClaimsWithResultRollupId (din_nonce defiNote) (rollupId rollup))
                     (interactionResult block),
           None))"

section \<open>confirmOrAddRollupToDb\<close>

text \<open>\<open>innerProofDataToTxDao\<close> (lines 22-34). A zero nullifier is stored as \<open>undefined\<close>.\<close>

definition innerProofDataToTxDao :: "InnerProofData \<Rightarrow> Buffer option \<Rightarrow> Date \<Rightarrow> TxType \<Rightarrow> TxDao" where
  "innerProofDataToTxDao tx offchain createdAt txType =
     \<lparr>tx_id = txId tx,
      tx_proofData = ipd_toBuffer tx,
      tx_offchainTxData = offchain,
      tx_nullifier1 = (if toBigIntBE (nullifier1 tx) \<noteq> 0 then Some (nullifier1 tx) else None),
      tx_nullifier2 = (if toBigIntBE (nullifier2 tx) \<noteq> 0 then Some (nullifier2 tx) else None),
      tx_created = createdAt,
      tx_mined = Some createdAt,
      tx_txType = txType,
      tx_excessGas = 0\<rparr>"

text \<open>
  Modelled from the spec: the entity class \<open>AssetMetricsDao\<close> is not among the sources;
  \<open>new AssetMetricsDao()\<close> is the spec's fresh start (section 4.5.8), all totals zero.
\<close>

definition new_AssetMetricsDao :: AssetMetricsDao where
  "new_AssetMetricsDao =
     \<lparr>am_rollupId = 0, am_assetId = 0, am_contractBalance = 0, am_totalDeposited = 0,
      am_totalWithdrawn = 0, am_totalDefiDeposited = 0, am_totalDefiClaimed = 0,
      am_totalFees = 0\<rparr>"

text \<open>
  \<open>getAssetMetrics\<close> (lines 387-411). The sentinel \<open>1 << 30\<close> is \<open>2 ^ 30\<close>. The back
  reference \<open>assetMetrics.rollup\<close> holds the rollup id again and is left out.
\<close>

definition defiClaimedOf :: "nat \<Rightarrow> DefiInteractionNote list \<Rightarrow> int" where
  "defiClaimedOf assetId interactionResults =
     foldl (\<lambda>a v. a
              + (if outputAssetIdA (din_bridgeId v) = assetId then totalOutputValueA v else 0)
              + (if outputAssetIdB (din_bridgeId v) = assetId then totalOutputValueB v else 0))
           0 interactionResults"

definition getAssetMetrics ::
  "Env \<Rightarrow> RollupDbReads \<Rightarrow> RollupProofData \<Rightarrow> DefiInteractionNote list \<Rightarrow> AssetMetricsDao list" where
  "getAssetMetrics env reads rollup interactionResults =
     map (\<lambda>assetId.
            let previous = db_getAssetMetrics reads assetId;
                assetMetrics = (case previous of Some p \<Rightarrow> p | None \<Rightarrow> new_AssetMetricsDao)
            in assetMetrics
                 \<lparr>am_rollupId := rollupId rollup,
                  am_assetId := assetId,
                  am_contractBalance := getRollupBalance env assetId,
                  am_totalDeposited := am_totalDeposited assetMetrics + getTotalDeposited rollup assetId,
                  am_totalWithdrawn := am_totalWithdrawn assetMetrics + getTotalWithdrawn rollup assetId,
                  am_totalDefiDeposited :=
                    am_totalDefiDeposited assetMetrics + getTotalDefiDeposit rollup assetId,
                  am_totalDefiClaimed :=
                    am_totalDefiClaimed assetMetrics + defiClaimedOf assetId interactionResults,
                  am_totalFees := am_totalFees assetMetrics + getTotalFees rollup assetId\<rparr>)
         (filter (\<lambda>id. id \<noteq> 2 ^ 30) (assetIds rollup))"

text \<open>The loop of lines 339-349: one settlement duration for a non-padding inner proof
  whose tx id is found among the stored proof's txs.\<close>

fun settlementDurations :: "Block \<Rightarrow> RollupProofDao \<Rightarrow> InnerProofData list \<Rightarrow> MetricOp list" where
  "settlementDurations block rollupProof [] = []"
| "settlementDurations block rollupProof (inner # rest) =
     (if isPadding inner then settlementDurations block rollupProof rest
      else case find (\<lambda>tx. tx_id tx = txId inner) (rp_txs rollupProof) of
        None \<Rightarrow> settlementDurations block rollupProof rest
      | Some tx \<Rightarrow>
          TxSettlementDuration (created block - tx_created tx)
          # settlementDurations block rollupProof rest)"

text \<open>\<open>xs.map((p, i) => f(p, i))\<close>: the callback receives the position in \<open>xs\<close>.\<close>

definition mapWithIndex :: "('a \<Rightarrow> nat \<Rightarrow> 'b) \<Rightarrow> 'a list \<Rightarrow> 'b list" where
  "mapWithIndex f xs = map (\<lambda>(i, x). f x i) (enumerate 0 xs)"

text \<open>The txs rebuilt from the inner proofs (lines 354-356).\<close>

definition rebuiltTxs :: "Env \<Rightarrow> RollupProofData \<Rightarrow> Buffer list \<Rightarrow> Date \<Rightarrow> TxDao list" where
  "rebuiltTxs env rollup offchain createdAt =
     mapWithIndex
       (\<lambda>p i. innerProofDataToTxDao p (at_index offchain i) createdAt
                 (getTxTypeFromInnerProofData env p))
       (filter (\<lambda>tx. \<not> isPadding tx) (innerProofData rollup))"

text \<open>
  \<open>confirmOrAddRollupToDb\<close> (lines 318-381): the calls on the relational store and on
  the metrics sink. The last two lines of the function (383-384) append to the block
  cache and write to neither store; they are left out.
\<close>

definition confirmOrAddRollupToDb ::
  "Env \<Rightarrow> RollupDbReads \<Rightarrow> RollupProofData \<Rightarrow> Buffer list \<Rightarrow> Block \<Rightarrow> DbOp list \<times> MetricOp list" where
  "confirmOrAddRollupToDb env reads rollup offchain block =
     (let assetMetrics = getAssetMetrics env reads rollup (interactionResult block) in
      case db_getRollupProof reads (rollupHash rollup) of
        Some rollupProof \<Rightarrow>
          (let txIds = map tx_id (rp_txs rollupProof) in
           ([ConfirmMined (rollupId rollup) (gasUsed block) (gasPrice block) (created block)
               (txHash block) (interactionResult block) txIds assetMetrics],
            settlementDurations block rollupProof (innerProofData rollup) @ [RollupReceived]))
      | None \<Rightarrow>
          (let txs = rebuiltTxs env rollup offchain (created block);
               rollupProofDao =
                 \<lparr>rp_id = rollupHash rollup, rp_txs = txs, rp_rollupSize = rollupSize rollup,
                  rp_dataStartIndex = dataStartIndex rollup,
                  rp_proofData = rollupProofData block, rp_created = created block\<rparr>;
               rollupDao =
                 \<lparr>r_id = rollupId rollup, r_dataRoot = newDataRoot rollup,
                  r_rollupProof = rollupProofDao, r_ethTxHash = txHash block,
                  r_mined = created block, r_created = created block,
                  r_interactionResult = concat (map din_toBuffer (interactionResult block)),
                  r_gasPrice = toBufferBE (gasPrice block) 32,
                  r_gasUsed = gasUsed block,
                  r_assetMetrics = assetMetrics\<rparr>
           in ([AddRollup rollupDao], [RollupReceived])))"

section \<open>updateDbs\<close>

text \<open>
  \<open>updateDbs\<close> (lines 235-263): the calls made on the tree store, on the relational
  store and on the metrics sink, and the exception that ended it, if any. The tree store
  is the one \<open>updateDbs\<close> starts from; \<open>addRollupToWorldState\<close> runs on it after the
  \<open>rollback\<close>.
\<close>

record UpdateResult =
  treeOps :: "TreeOp list"
  dbOps :: "DbOp list"
  metricOps :: "MetricOp list"
  thrown :: "Error option"

definition rootsMatch :: "WorldStateDb \<Rightarrow> RollupProofData \<Rightarrow> bool" where
  "rootsMatch db rollup =
     (newDataRoot rollup = getRoot db DATA \<and>
      newNullRoot rollup = getRoot db NULL \<and>
      newDataRootsRoot rollup = getRoot db ROOT \<and>
      newDefiRoot rollup = getRoot db DEFI)"

definition updateDbs ::
  "Env \<Rightarrow> RollupDbReads \<Rightarrow> WorldStateDb \<Rightarrow> Block \<Rightarrow> (nat \<Rightarrow> Date) \<Rightarrow> UpdateResult" where
  "updateDbs env reads db block clock =
     (case RollupProofData_fromBuffer env (rollupProofData block) of
        None \<Rightarrow> \<lparr>treeOps = [], dbOps = [], metricOps = [], thrown = Some DecodeError\<rparr>
      | Some rollup \<Rightarrow>
          (let tops =
                 (if rootsMatch db rollup then [Commit]
                  else Rollback
                       # addRollupToWorldState (NUM_BRIDGE_CALLS_PER_BLOCK env) (rollback db) rollup);
               defi = processDefiProofs env rollup (offchainTxData block) block clock
           in case snd defi of
                Some e \<Rightarrow> \<lparr>treeOps = tops, dbOps = fst defi, metricOps = [], thrown = Some e\<rparr>
              | None \<Rightarrow>
                  (let c = confirmOrAddRollupToDb env reads rollup (offchainTxData block) block
                   in \<lparr>treeOps = tops, dbOps = fst defi @ fst c, metricOps = snd c,
                       thrown = None\<rparr>)))"

section \<open>syncStateFromInitFiles\<close>

record AccountAlias =
  alias_aliasHash :: Buffer
  alias_address :: Buffer
  alias_nonce :: nat

record AccountData =
  acc_alias :: AccountAlias

record InitRoots =
  initDataRoot :: Buffer
  initNullRoot :: Buffer
  initRootsRoot :: Buffer

text \<open>
  The static methods of \<open>InitHelpers\<close>, a class that is not among the sources. The two
  \<open>populate\<close> methods write to the tree store and return the roots they computed.
\<close>

record InitHelpers =
  getAccountDataFile :: "nat \<Rightarrow> string option"
  readAccountTreeData :: "string \<Rightarrow> AccountData list"
  getInitRoots :: "nat \<Rightarrow> InitRoots"
  populateDataAndRootsTrees :: "AccountData list \<Rightarrow> WorldStateDb \<Rightarrow> (Buffer \<times> Buffer) \<times> WorldStateDb"
  populateNullifierTree :: "AccountData list \<Rightarrow> WorldStateDb \<Rightarrow> Buffer \<times> WorldStateDb"

record InitResult =
  init_db :: WorldStateDb
  init_dbOps :: "DbOp list"
  init_thrown :: "Error option"

definition accountDaoOf :: "AccountData \<Rightarrow> AccountDao" where
  "accountDaoOf a =
     \<lparr>aliasHash = alias_aliasHash (acc_alias a), accountPubKey = alias_address (acc_alias a),
      nonce = alias_nonce (acc_alias a)\<rparr>"

text \<open>\<open>syncStateFromInitFiles\<close> (lines 110-159) for the chain id the blockchain reports.\<close>

definition syncStateFromInitFiles :: "InitHelpers \<Rightarrow> nat \<Rightarrow> WorldStateDb \<Rightarrow> InitResult" where
  "syncStateFromInitFiles h chainId db =
     (case getAccountDataFile h chainId of
        None \<Rightarrow> \<lparr>init_db = db, init_dbOps = [], init_thrown = None\<rparr>
      | Some accountDataFile \<Rightarrow>
          (let accounts = readAccountTreeData h accountDataFile;
               roots = getInitRoots h chainId
           in if length accounts = 0
              then \<lparr>init_db = db, init_dbOps = [], init_thrown = None\<rparr>
              else if length (initDataRoot roots) = 0 \<or> length (initNullRoot roots) = 0
                      \<or> length (initRootsRoot roots) = 0
              then \<lparr>init_db = db, init_dbOps = [], init_thrown = None\<rparr>
              else
                (let p1 = populateDataAndRootsTrees h accounts db;
                     dataRoot = fst (fst p1);
                     rootsRoot = snd (fst p1);
                     p2 = populateNullifierTree h accounts (snd p1);
                     newNullRoot = fst p2;
                     db2 = snd p2
                 in if initDataRoot roots \<noteq> dataRoot
                    then \<lparr>init_db = db2, init_dbOps = [],
                          init_thrown = Some (RootMismatch DATA (initDataRoot roots))\<rparr>
                    else if initRootsRoot roots \<noteq> rootsRoot
                    then \<lparr>init_db = db2, init_dbOps = [],
                          init_thrown = Some (RootMismatch ROOT (initRootsRoot roots))\<rparr>
                    else if initNullRoot roots \<noteq> newNullRoot
                    then \<lparr>init_db = db2, init_dbOps = [],
                          init_thrown = Some (RootMismatch NULL (initNullRoot roots))\<rparr>
                    else \<lparr>init_db = db2, init_dbOps = [AddAccounts (map accountDaoOf accounts)],
                          init_thrown = None\<rparr>)))"

section \<open>getNextPublishTime and getTxPoolProfile\<close>

text \<open>
  The field \<open>pipeline\<close> is declared without an initialiser and assigned by
  \<open>startNewPipeline\<close>: it is \<open>undefined\<close> (\<open>None\<close>) until then. A pipeline is the record of
  what its two read methods return. Calling a method on \<open>undefined\<close> throws a TypeError.
\<close>

record 'rt RollupTimeouts =
  baseTimeout :: "'rt option"
  bridgeTimeouts :: "int \<rightharpoonup> 'rt"

record ('rt, 'pf) RollupPipeline =
  pipeline_getNextPublishTime :: "'rt RollupTimeouts"
  pipeline_getTxPoolProfile :: 'pf

definition getNextPublishTime :: "('rt, 'pf) RollupPipeline option \<Rightarrow> Error + 'rt RollupTimeouts" where
  "getNextPublishTime pipeline =
     (case pipeline of
        Some p \<Rightarrow> Inr (pipeline_getNextPublishTime p)
      | None \<Rightarrow> Inr \<lparr>baseTimeout = None, bridgeTimeouts = Map.empty\<rparr>)"

definition getTxPoolProfile :: "('rt, 'pf) RollupPipeline option \<Rightarrow> Error + 'pf" where
  "getTxPoolProfile pipeline =
     (case pipeline of
        Some p \<Rightarrow> Inr (pipeline_getTxPoolProfile p)
      | None \<Rightarrow> Inl TypeError)"

section \<open>Observations on the calls made\<close>

text \<open>The claims handed to \<open>addClaim\<close> and the durations handed to \<open>txSettlementDuration\<close>.\<close>

fun addedClaims :: "DbOp list \<Rightarrow> ClaimDao list" where
  "addedClaims [] = []"
| "addedClaims (AddClaim c # ops) = c # addedClaims ops"
| "addedClaims (opn # ops) = addedClaims ops"

fun durationsOf :: "MetricOp list \<Rightarrow> int list" where
  "durationsOf [] = []"
| "durationsOf (TxSettlementDuration d # ms) = d # durationsOf ms"
| "durationsOf (RollupReceived # ms) = durationsOf ms"

text \<open>The number of non-padding inner proofs before position \<open>i\<close>.\<close>

definition offChainIndexAt :: "InnerProofData list \<Rightarrow> nat \<Rightarrow> nat" where
  "offChainIndexAt ps i = length (filter (\<lambda>p. \<not> isPadding p) (take i ps))"

text \<open>
  Every \<open>DEFI_DEPOSIT\<close> inner proof finds a blob it can decode at its off-chain index
  (counted from \<open>o0\<close>): the loop of \<open>processDefiProofs\<close> then throws nowhere.
\<close>

definition offchainDecodable :: "Env \<Rightarrow> Buffer list \<Rightarrow> nat \<Rightarrow> InnerProofData list \<Rightarrow> bool" where
  "offchainDecodable env offchain o0 ps =
     (\<forall>k < length ps. proofId (ps ! k) = DEFI_DEPOSIT \<longrightarrow>
        readOffchainDefiDepositData env offchain (o0 + offChainIndexAt ps k) \<noteq> None)"

section \<open>The effect of a list of puts\<close>




text \<open>The puts of \<open>addRollupToWorldState\<close> when its early return is not taken.\<close>

definition rollupPuts :: "nat \<Rightarrow> WorldStateDb \<Rightarrow> RollupProofData \<Rightarrow> TreeOp list" where
  "rollupPuts K db rollup =
     putInnerProofs (dataStartIndex rollup) 0 (innerProofData rollup)
     @ [Put ROOT (rollupId rollup + 1)
          (getRoot (run db (putInnerProofs (dataStartIndex rollup) 0 (innerProofData rollup))) DATA)]
     @ putDefiNotes (rollupId rollup * K) 0 (defiInteractionNotes rollup)"


section \<open>The relational store\<close>









section \<open>Example data\<close>

text \<open>
  A rollup of id 2 with four bridge slots and two inner proofs: a padding proof at
  position 0 and a defi deposit at position 1, whose off-chain blob is the only one of
  the block. Buffers are kept short, except the 32 zero bytes of the padding proof and of
  the empty defi interaction notes. The example root of a tree is the concatenation of its
  first four leaves.
\<close>

definition zero32 :: Buffer where
  "zero32 = Buffer_alloc 32 0"

definition exRoot :: "RollupTreeId \<Rightarrow> (nat \<rightharpoonup> Buffer) \<Rightarrow> Buffer" where
  "exRoot t m = concat (map (\<lambda>i. case m i of None \<Rightarrow> [] | Some b \<Rightarrow> b) [0, 1, 2, 3])"

definition emptyTree :: MerkleTree where
  "emptyTree = \<lparr>leaves = Map.empty, tree_size = 0\<rparr>"

definition exDb :: WorldStateDb where
  "exDb = \<lparr>committed = (\<lambda>t. emptyTree), working = (\<lambda>t. emptyTree), merkleRoot = exRoot\<rparr>"

definition exPadding :: InnerProofData where
  "exPadding =
     \<lparr>proofId = PADDING, txId = zero32, noteCommitment1 = zero32, noteCommitment2 = zero32,
      nullifier1 = zero32, nullifier2 = zero32, ipd_toBuffer = []\<rparr>"

definition exDefiDeposit :: InnerProofData where
  "exDefiDeposit =
     \<lparr>proofId = DEFI_DEPOSIT, txId = [7], noteCommitment1 = [1], noteCommitment2 = [2],
      nullifier1 = [3], nullifier2 = [], ipd_toBuffer = [9]\<rparr>"

definition exRollup :: RollupProofData where
  "exRollup =
     \<lparr>rollupId = 2, rollupSize = 2, rollupHash = [5], dataStartIndex = 0,
      newDataRoot = [1, 1], newNullRoot = [], newDataRootsRoot = [], newDefiRoot = [],
      bridgeIds = [[10], [11], [12], [13]], assetIds = [0, 2 ^ 30],
      defiInteractionNotes = [zero32, zero32, zero32, zero32],
      innerProofData = [exPadding, exDefiDeposit],
      getTotalDeposited = (\<lambda>a. 5), getTotalWithdrawn = (\<lambda>a. 0),
      getTotalDefiDeposit = (\<lambda>a. 0), getTotalFees = (\<lambda>a. 0)\<rparr>"

text \<open>A rollup of id 0 without inner proofs.\<close>

definition exRollupEmpty :: RollupProofData where
  "exRollupEmpty =
     \<lparr>rollupId = 0, rollupSize = 0, rollupHash = [6], dataStartIndex = 0,
      newDataRoot = [1, 1], newNullRoot = [], newDataRootsRoot = [], newDefiRoot = [],
      bridgeIds = [[10], [11], [12], [13]], assetIds = [],
      defiInteractionNotes = [zero32, zero32, zero32, zero32],
      innerProofData = [],
      getTotalDeposited = (\<lambda>a. 0), getTotalWithdrawn = (\<lambda>a. 0),
      getTotalDefiDeposit = (\<lambda>a. 0), getTotalFees = (\<lambda>a. 0)\<rparr>"

text \<open>Off-chain data of a deposit on the bridge of slot 2, and on a bridge of no slot.\<close>

definition exOffchain :: OffchainDefiDepositData where
  "exOffchain =
     \<lparr>od_bridgeId = \<lparr>bid_toBigInt = 12, bid_toBuffer = [12], outputAssetIdA = 0,
                      outputAssetIdB = 0\<rparr>,
      od_depositValue = 100, od_partialState = [], od_partialStateSecretEphPubKey = [],
      od_txFee = 10\<rparr>"

definition exOffchainUnknown :: OffchainDefiDepositData where
  "exOffchainUnknown =
     \<lparr>od_bridgeId = \<lparr>bid_toBigInt = 99, bid_toBuffer = [99], outputAssetIdA = 0,
                      outputAssetIdB = 0\<rparr>,
      od_depositValue = 100, od_partialState = [], od_partialStateSecretEphPubKey = [],
      od_txFee = 10\<rparr>"

definition exEnv :: Env where
  "exEnv =
     \<lparr>NUM_BRIDGE_CALLS_PER_BLOCK = 4,
      RollupProofData_fromBuffer =
        (\<lambda>buf. if buf = [1] then Some exRollup
               else if buf = [2] then Some exRollupEmpty else None),
      OffchainDefiDepositData_fromBuffer =
        (\<lambda>buf. if buf = [20] then Some exOffchain
               else if buf = [21] then Some exOffchainUnknown else None),
      claimNoteCommitment = (\<lambda>n. []),
      claimNoteNullifier = (\<lambda>b. []),
      getTxTypeFromInnerProofData = (\<lambda>p. 5),
      getRollupBalance = (\<lambda>a. 0)\<rparr>"

definition exBlock :: Block where
  "exBlock =
     \<lparr>txHash = [8], created = 1000, rollupProofData = [1], offchainTxData = [[20]],
      interactionResult = [], gasUsed = 1000000, gasPrice = 30\<rparr>"


definition exClock :: "nat \<Rightarrow> Date" where
  "exClock i = 2000"

definition exReads :: RollupDbReads where
  "exReads = \<lparr>db_getRollupProof = (\<lambda>h. None), db_getAssetMetrics = (\<lambda>a. None)\<rparr>"

text \<open>A stored proof of the example rollup, with the tx of the defi deposit.\<close>

definition exStoredProof :: RollupProofDao where
  "exStoredProof =
     \<lparr>rp_id = [5],
      rp_txs = [\<lparr>tx_id = [7], tx_proofData = [9], tx_offchainTxData = Some [20],
                 tx_nullifier1 = Some [3], tx_nullifier2 = None, tx_created = 400,
                 tx_mined = None, tx_txType = 5, tx_excessGas = 0\<rparr>],
      rp_rollupSize = 2, rp_dataStartIndex = 0, rp_proofData = [1], rp_created = 500\<rparr>"

definition exReadsFound :: RollupDbReads where
  "exReadsFound =
     \<lparr>db_getRollupProof = (\<lambda>h. if h = [5] then Some exStoredProof else None),
      db_getAssetMetrics = (\<lambda>a. None)\<rparr>"


text \<open>Init files of chain 1: one account, and the roots the example helpers compute.\<close>

definition exAccount :: AccountData where
  "exAccount = \<lparr>acc_alias = \<lparr>alias_aliasHash = [1], alias_address = [2], alias_nonce = 1\<rparr>\<rparr>"

definition exHelpers :: InitHelpers where
  "exHelpers =
     \<lparr>getAccountDataFile = (\<lambda>c. if c = 1 then Some ''accounts'' else None),
      readAccountTreeData = (\<lambda>f. [exAccount]),
      getInitRoots = (\<lambda>c. \<lparr>initDataRoot = [1], initNullRoot = [2], initRootsRoot = [3]\<rparr>),
      populateDataAndRootsTrees = (\<lambda>accs db. (([1], [3]), put db DATA 0 [1])),
      populateNullifierTree = (\<lambda>accs db. ([2], put db NULL 1 [1]))\<rparr>"

text \<open>The same init files with an expected null root the trees do not have.\<close>

definition exHelpersMismatch :: InitHelpers where
  "exHelpersMismatch =
     exHelpers\<lparr>getInitRoots :=
       (\<lambda>c. \<lparr>initDataRoot = [1], initNullRoot = [9], initRootsRoot = [3]\<rparr>)\<rparr>"


section \<open>Lemmas\<close>

subsection \<open>Buffers and findIndex\<close>

lemma toBigIntBE_zeros: "toBigIntBE (replicate n 0) = 0"
  unfolding toBigIntBE_def by (induction n) simp_all


lemma findIndexFrom_first:
  "j < length xs \<Longrightarrow> P (xs ! j) \<Longrightarrow> \<forall>j' < j. \<not> P (xs ! j') \<Longrightarrow>
   findIndexFrom i P xs = int (i + j)"
proof (induction xs arbitrary: i j)
  case Nil
  then show ?case by simp
next
  case (Cons x xs)
  show ?case
  proof (cases j)
    case 0
    with Cons.prems show ?thesis by simp
  next
    case (Suc j')
    from Cons.prems Suc have "\<not> P x" by auto
    moreover have "findIndexFrom (Suc i) P xs = int (Suc i + j')"
      using Cons.prems Suc by (intro Cons.IH) auto
    ultimately show ?thesis by (simp add: Suc)
  qed
qed

subsection \<open>The tree writes of addRollupToWorldState\<close>

lemma filter_DATA_putInnerProofs:
  "filter (isPutTo DATA) (putInnerProofs dsi i txs) =
     concat (map (\<lambda>(k, tx). [Put DATA (dsi + k * 2) (noteCommitment1 tx),
                              Put DATA (dsi + k * 2 + 1) (noteCommitment2 tx)])
                 (enumerate i txs))"
  by (induction txs arbitrary: i) simp_all

text \<open>
  The loop over the defi interaction notes skips the empty buffer and no other note:
  a note of 32 bytes is written whatever its bytes are.
\<close>

lemma putDefiNotes_skips_empty_only:
  "putDefiNotes s i ns =
     map (\<lambda>(k, n). Put DEFI (s + k) n) (filter (\<lambda>(k, n). n \<noteq> []) (enumerate i ns))"
  by (induction ns arbitrary: i) (simp_all add: Buffer_alloc_def)

lemma filter_DATA_putDefiNotes: "filter (isPutTo DATA) (putDefiNotes s i ns) = []"
  by (induction ns arbitrary: i) simp_all

lemma NULL_putInnerProofs:
  "opn \<in> set (putInnerProofs dsi i txs) \<Longrightarrow> isPutTo NULL opn \<Longrightarrow>
   \<exists>tx \<in> set txs. \<not> isPadding tx \<and>
     (opn = Put NULL (toBigIntBE (nullifier1 tx)) (toBufferBE 1 32) \<or>
      opn = Put NULL (toBigIntBE (nullifier2 tx)) (toBufferBE 1 32))"
  by (induction txs arbitrary: i) (auto split: if_splits)

lemma NULL_putDefiNotes: "opn \<in> set (putDefiNotes s i ns) \<Longrightarrow> \<not> isPutTo NULL opn"
  by (induction ns arbitrary: i) (auto split: if_splits)





lemma addRollup_unguarded:
  "\<not> getSize db DATA > dataStartIndex rollup \<Longrightarrow>
   addRollupToWorldState K db rollup = rollupPuts K db rollup @ [Commit]"
  by (simp add: addRollupToWorldState_def rollupPuts_def Let_def)





subsection \<open>Puts as an overlay on the tree store\<close>

















subsection \<open>The loop of processDefiProofs\<close>

lemma addedClaims_append: "addedClaims (xs @ ys) = addedClaims xs @ addedClaims ys"
  by (induction xs rule: addedClaims.induct) simp_all

lemma addedClaims_updates:
  "addedClaims (map (\<lambda>n. UpdateClaimsWithResultRollupId (f n) r) ns) = []"
  by (induction ns) simp_all

lemma cl_id_defiDepositClaim:
  "cl_id (defiDepositClaim env rollup i p d t) = dataStartIndex rollup + i * 2"
  by (simp add: defiDepositClaim_def Let_def)

lemma offChainIndexAt_Cons:
  "offChainIndexAt (p # ps) (Suc k) = (if isPadding p then 0 else 1) + offChainIndexAt ps k"
  by (simp add: offChainIndexAt_def)

lemma offChainIndexAt_0: "offChainIndexAt ps 0 = 0"
  by (simp add: offChainIndexAt_def)

text \<open>The claims added from position \<open>i0\<close> on have leaf indices from \<open>i0\<close>'s on.\<close>

lemma claim_ids_lower:
  "c \<in> set (addedClaims (fst (processInnerProofs env rollup offchain block clock i0 o0 ps)))
   \<Longrightarrow> dataStartIndex rollup + i0 * 2 \<le> cl_id c"
proof (induction ps arbitrary: i0 o0)
  case Nil
  then show ?case by simp
next
  case (Cons p ps)
  have step: "\<And>o'. c \<in> set (addedClaims (fst (processInnerProofs env rollup offchain block clock (Suc i0) o' ps)))
     \<Longrightarrow> dataStartIndex rollup + i0 * 2 \<le> cl_id c"
    using Cons.IH by fastforce
  from Cons.prems show ?case
    by (auto simp: Let_def cl_id_defiDepositClaim split: if_splits option.splits dest: step)
qed

lemma loop_no_error:
  "offchainDecodable env offchain o0 ps \<Longrightarrow>
   snd (processInnerProofs env rollup offchain block clock i0 o0 ps) = None"
proof (induction ps arbitrary: i0 o0)
  case Nil
  then show ?case by simp
next
  case (Cons p ps)
  have rest: "offchainDecodable env offchain (if isPadding p then o0 else Suc o0) ps"
    unfolding offchainDecodable_def
  proof (intro allI impI)
    fix k assume k: "k < length ps" and d: "proofId (ps ! k) = DEFI_DEPOSIT"
    from Cons.prems k d
    have "readOffchainDefiDepositData env offchain (o0 + offChainIndexAt (p # ps) (Suc k)) \<noteq> None"
      unfolding offchainDecodable_def by (metis Suc_less_eq length_Cons nth_Cons_Suc)
    then show "readOffchainDefiDepositData env offchain
        ((if isPadding p then o0 else Suc o0) + offChainIndexAt ps k) \<noteq> None"
      by (cases "isPadding p") (simp_all add: offChainIndexAt_Cons)
  qed
  have head: "proofId p = DEFI_DEPOSIT \<Longrightarrow> readOffchainDefiDepositData env offchain o0 \<noteq> None"
    using Cons.prems unfolding offchainDecodable_def
    by (metis add.right_neutral length_Cons nth_Cons_0 offChainIndexAt_0 zero_less_Suc)
  show ?case
    using Cons.IH[OF rest] head
    by (auto simp: Let_def isPadding_def split: option.splits)
qed

text \<open>
  When the loop throws nowhere, the defi deposit at position \<open>i0 + k\<close> adds one claim at
  its leaf index, built from the blob at the off-chain index of that position.
\<close>

lemma loop_claim_at:
  assumes "snd (processInnerProofs env rollup offchain block clock i0 o0 ps) = None"
    and "k < length ps" and "proofId (ps ! k) = DEFI_DEPOSIT"
  shows "\<exists>d. readOffchainDefiDepositData env offchain (o0 + offChainIndexAt ps k) = Some d \<and>
    filter (\<lambda>c. cl_id c = dataStartIndex rollup + (i0 + k) * 2)
      (addedClaims (fst (processInnerProofs env rollup offchain block clock i0 o0 ps)))
    = [defiDepositClaim env rollup (i0 + k) (ps ! k) d (clock (i0 + k))]"
  using assms
proof (induction ps arbitrary: i0 o0 k)
  case Nil
  then show ?case by simp
next
  case (Cons p ps)
  show ?case
  proof (cases k)
    case 0
    with Cons.prems have dep: "proofId p = DEFI_DEPOSIT" by simp
    then have np: "\<not> isPadding p" by (simp add: isPadding_def)
    from Cons.prems dep np obtain d where d: "readOffchainDefiDepositData env offchain o0 = Some d"
      by (auto split: option.splits)
    have "filter (\<lambda>c. cl_id c = dataStartIndex rollup + i0 * 2)
      (addedClaims (fst (processInnerProofs env rollup offchain block clock (Suc i0) (Suc o0) ps))) = []"
      using claim_ids_lower[of _ env rollup offchain block clock "Suc i0" "Suc o0" ps]
      by (fastforce simp: filter_empty_conv)
    with 0 dep np d show ?thesis
      by (simp add: Let_def offChainIndexAt_0 cl_id_defiDepositClaim)
  next
    case (Suc k')
    let ?o = "if isPadding p then o0 else Suc o0"
    from Cons.prems have ok: "snd (processInnerProofs env rollup offchain block clock (Suc i0) ?o ps) = None"
      by (auto simp: Let_def split: if_splits option.splits)
    from Cons.prems Suc have k': "k' < length ps" and dk: "proofId (ps ! k') = DEFI_DEPOSIT"
      by simp_all
    from Cons.IH[OF ok k' dk] obtain d where
      d: "readOffchainDefiDepositData env offchain (?o + offChainIndexAt ps k') = Some d"
      and f: "filter (\<lambda>c. cl_id c = dataStartIndex rollup + (Suc i0 + k') * 2)
          (addedClaims (fst (processInnerProofs env rollup offchain block clock (Suc i0) ?o ps)))
        = [defiDepositClaim env rollup (Suc i0 + k') (ps ! k') d (clock (Suc i0 + k'))]"
      by blast
    have idx: "o0 + offChainIndexAt (p # ps) k = ?o + offChainIndexAt ps k'"
      by (simp add: Suc offChainIndexAt_Cons)
    have "filter (\<lambda>c. cl_id c = dataStartIndex rollup + (i0 + k) * 2)
        (addedClaims (fst (processInnerProofs env rollup offchain block clock i0 o0 (p # ps))))
      = filter (\<lambda>c. cl_id c = dataStartIndex rollup + (Suc i0 + k') * 2)
          (addedClaims (fst (processInnerProofs env rollup offchain block clock (Suc i0) ?o ps)))"
      using Cons.prems(1)
      by (auto simp: Suc Let_def cl_id_defiDepositClaim split: option.splits)
    with f d idx show ?thesis by (simp add: Suc)
  qed
qed

lemma processDefiProofs_claims:
  "addedClaims (fst (processDefiProofs env rollup offchain block clock)) =
   addedClaims (fst (processInnerProofs env rollup offchain block clock 0 0 (innerProofData rollup)))"
  by (simp add: processDefiProofs_def Let_def addedClaims_append addedClaims_updates
      split: option.splits)


subsection \<open>confirmOrAddRollupToDb\<close>

lemma durationsOf_append: "durationsOf (xs @ ys) = durationsOf xs @ durationsOf ys"
  by (induction xs rule: durationsOf.induct) simp_all

lemma durations_settlement:
  "durationsOf (settlementDurations block rp ps) =
     map (\<lambda>tx. created block - tx_created tx)
       (List.map_filter (\<lambda>inner. find (\<lambda>tx. tx_id tx = txId inner) (rp_txs rp))
          (filter (\<lambda>p. \<not> isPadding p) ps))"
  by (induction ps) (simp_all add: map_filter_simps split: option.splits)

lemma map_mapWithIndex:
  "map g (mapWithIndex (\<lambda>p i. f p i) xs) = mapWithIndex (\<lambda>p i. g (f p i)) xs"
  by (simp add: mapWithIndex_def case_prod_unfold)

lemma mapWithIndex_const: "mapWithIndex (\<lambda>p i. f p) xs = map f xs"
proof -
  have "map (\<lambda>(i, x). f x) (enumerate n xs) = map f xs" for n
    by (induction xs arbitrary: n) simp_all
  then show ?thesis by (simp add: mapWithIndex_def)
qed

subsection \<open>Facts about the example data\<close>

lemma zero32_neq [simp]: "zero32 \<noteq> []" "[] \<noteq> zero32"
  by (simp_all add: zero32_def Buffer_alloc_def)

lemma toBigIntBE_zero32 [simp]: "toBigIntBE zero32 = 0"
  by (simp add: zero32_def Buffer_alloc_def toBigIntBE_zeros)

lemma exRollup_fields [simp]:
  "rollupId exRollup = 2" "dataStartIndex exRollup = 0" "rollupHash exRollup = [5]"
  "bridgeIds exRollup = [[10], [11], [12], [13]]"
  "innerProofData exRollup = [exPadding, exDefiDeposit]"
  "defiInteractionNotes exRollup = [zero32, zero32, zero32, zero32]"
  by (simp_all add: exRollup_def)

lemma exEnv_fields [simp]:
  "NUM_BRIDGE_CALLS_PER_BLOCK exEnv = 4"
  "RollupProofData_fromBuffer exEnv [1] = Some exRollup"
  "RollupProofData_fromBuffer exEnv [2] = Some exRollupEmpty"
  "OffchainDefiDepositData_fromBuffer exEnv [20] = Some exOffchain"
  "OffchainDefiDepositData_fromBuffer exEnv [21] = Some exOffchainUnknown"
  "getTxTypeFromInnerProofData exEnv p = 5"
  "getRollupBalance exEnv a = 0"
  by (simp_all add: exEnv_def)

lemma exProofs_fields [simp]:
  "proofId exPadding = PADDING" "proofId exDefiDeposit = DEFI_DEPOSIT"
  "isPadding exPadding" "\<not> isPadding exDefiDeposit"
  "txId exDefiDeposit = [7]"
  by (simp_all add: exPadding_def exDefiDeposit_def isPadding_def)

lemma exIndex1 [simp]: "offChainIndexAt [exPadding, exDefiDeposit] (Suc 0) = 0"
  by (simp add: offChainIndexAt_def)

lemma exRead: "readOffchainDefiDepositData exEnv [[20]] 0 = Some exOffchain"
  by (simp add: readOffchainDefiDepositData_def at_index_def)


lemma exLength: "length (innerProofData exRollup) = 2"
  by simp


lemma exDecodable: "offchainDecodable exEnv [[20]] 0 (innerProofData exRollup)"
  unfolding offchainDecodable_def exLength
  by (auto simp: less_Suc_eq numeral_2_eq_2 exRead)


lemma exDecode: "RollupProofData_fromBuffer exEnv (rollupProofData exBlock) = Some exRollup"
  by (simp add: exEnv_def exBlock_def)

lemma exRoots: "getRoot exDb t = []"
  by (simp add: getRoot_def exDb_def exRoot_def emptyTree_def)

lemma exSize: "getSize exDb t = 0"
  by (simp add: getSize_def exDb_def emptyTree_def)

lemma exBlock_fields [simp]:
  "created exBlock = 1000" "gasUsed exBlock = 1000000" "gasPrice exBlock = 30"
  "txHash exBlock = [8]" "interactionResult exBlock = []" "offchainTxData exBlock = [[20]]"
  "rollupProofData exBlock = [1]"
  by (simp_all add: exBlock_def)




lemma exTotals [simp]:
  "getTotalDeposited exRollup a = 5" "getTotalWithdrawn exRollup a = 0"
  "getTotalDefiDeposit exRollup a = 0" "getTotalFees exRollup a = 0"
  by (simp_all add: exRollup_def)






lemma exRollupEmpty_fields [simp]:
  "rollupId exRollupEmpty = 0" "dataStartIndex exRollupEmpty = 0"
  "innerProofData exRollupEmpty = []"
  "defiInteractionNotes exRollupEmpty = [zero32, zero32, zero32, zero32]"
  "newDataRoot exRollupEmpty = [1, 1]"
  by (simp_all add: exRollupEmpty_def)



section \<open>The claims\<close>

text \<open>
  C1. For a block whose rollup proof data decodes, \<open>updateDbs\<close> compares the four new
  roots of the rollup with the current roots of the DATA, NULL, ROOT and DEFI trees. If
  all four are equal, its only call on the tree store is \<open>commit\<close>, and no leaf is
  written; otherwise it calls \<open>rollback\<close> and then makes the calls of
  \<open>addRollupToWorldState\<close> on the rolled-back store. One of the two happens, never both.
\<close>

theorem updateDbs_commits_or_replays:
  assumes "RollupProofData_fromBuffer env (rollupProofData block) = Some rollup"
  shows "treeOps (updateDbs env reads db block clock) =
     (if newDataRoot rollup = getRoot db DATA \<and> newNullRoot rollup = getRoot db NULL \<and>
         newDataRootsRoot rollup = getRoot db ROOT \<and> newDefiRoot rollup = getRoot db DEFI
      then [Commit]
      else Rollback # addRollupToWorldState (NUM_BRIDGE_CALLS_PER_BLOCK env) (rollback db) rollup)"
  using assms
  by (simp add: updateDbs_def rootsMatch_def Let_def split: option.splits)

text \<open>
  Witness for C1: the example block on the empty store. Its new data root is not the
  root of the empty DATA tree, so the store is rolled back and the rollup applied.
\<close>

theorem updateDbs_commits_or_replays_witness:
  "RollupProofData_fromBuffer exEnv (rollupProofData exBlock) = Some exRollup \<and>
   newDataRoot exRollup \<noteq> getRoot exDb DATA \<and>
   treeOps (updateDbs exEnv exReads exDb exBlock exClock) =
     Rollback # addRollupToWorldState 4 (rollback exDb) exRollup"
  using updateDbs_commits_or_replays[OF exDecode, of exReads exDb exClock]
  by (simp add: exDecode exRoots) (simp add: exRollup_def exEnv_def)

text \<open>
  C2, as the code has it. When the early return of \<open>addRollupToWorldState\<close> is not
  taken, the writes to the DATA tree are, for every inner proof at position \<open>i\<close>,
  padding or not, \<open>noteCommitment1\<close> at \<open>dataStartIndex + 2i\<close> and \<open>noteCommitment2\<close> at
  \<open>dataStartIndex + 2i + 1\<close>, in order of position, and no other. What is written
  only for non-padding inner proofs are the nullifiers: every write to the NULL tree is
  the write of a nullifier of a non-padding inner proof.
\<close>

theorem addRollupToWorldState_data_writes:
  assumes "\<not> getSize db DATA > dataStartIndex rollup"
  shows "filter (isPutTo DATA) (addRollupToWorldState K db rollup) =
     concat (map (\<lambda>(i, tx). [Put DATA (dataStartIndex rollup + i * 2) (noteCommitment1 tx),
                              Put DATA (dataStartIndex rollup + i * 2 + 1) (noteCommitment2 tx)])
                 (enumerate 0 (innerProofData rollup)))
    \<and> (\<forall>opn \<in> set (addRollupToWorldState K db rollup). isPutTo NULL opn \<longrightarrow>
         (\<exists>tx \<in> set (innerProofData rollup). \<not> isPadding tx \<and>
            (opn = Put NULL (toBigIntBE (nullifier1 tx)) (toBufferBE 1 32) \<or>
             opn = Put NULL (toBigIntBE (nullifier2 tx)) (toBufferBE 1 32))))"
proof (intro conjI ballI impI)
  show "filter (isPutTo DATA) (addRollupToWorldState K db rollup) =
     concat (map (\<lambda>(i, tx). [Put DATA (dataStartIndex rollup + i * 2) (noteCommitment1 tx),
                              Put DATA (dataStartIndex rollup + i * 2 + 1) (noteCommitment2 tx)])
                 (enumerate 0 (innerProofData rollup)))"
    using assms
    by (simp add: addRollupToWorldState_def Let_def filter_DATA_putInnerProofs
        filter_DATA_putDefiNotes)
next
  fix opn
  assume m: "opn \<in> set (addRollupToWorldState K db rollup)" and n: "isPutTo NULL opn"
  from m n have "opn \<in> set (putInnerProofs (dataStartIndex rollup) 0 (innerProofData rollup))"
    using NULL_putDefiNotes[of opn "rollupId rollup * K" 0 "defiInteractionNotes rollup"]
    by (auto simp: addRollup_unguarded[OF assms] rollupPuts_def)
  from NULL_putInnerProofs[OF this n]
  show "\<exists>tx \<in> set (innerProofData rollup). \<not> isPadding tx \<and>
            (opn = Put NULL (toBigIntBE (nullifier1 tx)) (toBufferBE 1 32) \<or>
             opn = Put NULL (toBigIntBE (nullifier2 tx)) (toBufferBE 1 32))" .
qed

text \<open>
  Witness for C2 as amended: the DATA writes of the example rollup on the empty store,
  and its one NULL write, the first nullifier of the defi deposit.
\<close>

theorem addRollupToWorldState_data_writes_witness:
  "\<not> getSize exDb DATA > dataStartIndex exRollup \<and>
   filter (isPutTo DATA) (addRollupToWorldState 4 exDb exRollup) =
     [Put DATA 0 zero32, Put DATA 1 zero32, Put DATA 2 [1], Put DATA 3 [2]] \<and>
   Put NULL 3 (toBufferBE 1 32) \<in> set (addRollupToWorldState 4 exDb exRollup) \<and>
   isPutTo NULL (Put NULL 3 (toBufferBE 1 32)) \<and>
   (\<exists>tx \<in> set (innerProofData exRollup). \<not> isPadding tx \<and>
      (Put NULL 3 (toBufferBE 1 32) = Put NULL (toBigIntBE (nullifier1 tx)) (toBufferBE 1 32) \<or>
       Put NULL 3 (toBufferBE 1 32) = Put NULL (toBigIntBE (nullifier2 tx)) (toBufferBE 1 32)))"
proof -
  have h: "\<not> getSize exDb DATA > dataStartIndex exRollup"
    by (simp add: exSize)
  have m: "Put NULL 3 (toBufferBE 1 32) \<in> set (addRollupToWorldState 4 exDb exRollup)"
    by (simp add: addRollupToWorldState_def exSize Let_def)
       (simp add: exDefiDeposit_def toBigIntBE_def)
  note t = addRollupToWorldState_data_writes[OF h, of 4]
  from t have d: "filter (isPutTo DATA) (addRollupToWorldState 4 exDb exRollup) =
     [Put DATA 0 zero32, Put DATA 1 zero32, Put DATA 2 [1], Put DATA 3 [2]]"
    by (simp add: exPadding_def exDefiDeposit_def)
  have n: "isPutTo NULL (Put NULL 3 (toBufferBE 1 32))"
    by simp
  from conjunct2[OF t, rule_format, OF m n]
  have e: "\<exists>tx \<in> set (innerProofData exRollup). \<not> isPadding tx \<and>
      (Put NULL 3 (toBufferBE 1 32) = Put NULL (toBigIntBE (nullifier1 tx)) (toBufferBE 1 32) \<or>
       Put NULL 3 (toBufferBE 1 32) = Put NULL (toBigIntBE (nullifier2 tx)) (toBufferBE 1 32))" .
  from h d m n e show ?thesis by (intro conjI)
qed

text \<open>
  Counterexample to C2 as stated: the inner proof at position 0 of the example rollup is
  padding, the early return is not taken, and both of its note commitments are written
  to the DATA tree.
\<close>

theorem padding_notes_are_written:
  "isPadding (innerProofData exRollup ! 0) \<and>
   \<not> getSize exDb DATA > dataStartIndex exRollup \<and>
   Put DATA (dataStartIndex exRollup + 2 * 0) (noteCommitment1 (innerProofData exRollup ! 0))
     \<in> set (addRollupToWorldState 4 exDb exRollup) \<and>
   Put DATA (dataStartIndex exRollup + 2 * 0 + 1) (noteCommitment2 (innerProofData exRollup ! 0))
     \<in> set (addRollupToWorldState 4 exDb exRollup)"
  by (simp add: addRollupToWorldState_def exSize Let_def)

text \<open>
  C3 at the example rollup, whose four defi interaction notes are the zero note of 32
  zero bytes: the code writes each of them to the DEFI tree, at indices
  \<open>rollupId * 4 + i\<close>. The note is compared with \<open>Buffer.alloc(0, 32)\<close>, the empty
  buffer, which no 32-byte note equals.
\<close>

theorem zero_defi_notes_are_written:
  "defiInteractionNotes exRollup = [Buffer_alloc 32 0, Buffer_alloc 32 0, Buffer_alloc 32 0, Buffer_alloc 32 0] \<and>
   \<not> getSize exDb DATA > dataStartIndex exRollup \<and>
   filter (isPutTo DEFI) (addRollupToWorldState 4 exDb exRollup) =
     [Put DEFI 8 (Buffer_alloc 32 0), Put DEFI 9 (Buffer_alloc 32 0),
      Put DEFI 10 (Buffer_alloc 32 0), Put DEFI 11 (Buffer_alloc 32 0)]"
  by (simp add: addRollupToWorldState_def exSize Let_def Buffer_alloc_def zero32_def)




text \<open>
  C5. When every defi deposit of the rollup finds off-chain data it can decode, the defi
  deposit at inner-proof position \<open>i\<close> adds exactly one claim with leaf index
  \<open>dataStartIndex + 2i\<close>. Its fee is \<open>txFee - (txFee >> 1)\<close>, and when the deposit's
  bridge id occurs in \<open>bridgeIds\<close>, first at index \<open>j\<close>, its interaction nonce is
  \<open>j + rollupId * K\<close>.
\<close>

theorem defi_deposit_claim:
  assumes "offchainDecodable env offchain 0 (innerProofData rollup)"
    and "i < length (innerProofData rollup)"
    and "proofId (innerProofData rollup ! i) = DEFI_DEPOSIT"
  shows "\<exists>d c.
    readOffchainDefiDepositData env offchain (offChainIndexAt (innerProofData rollup) i) = Some d \<and>
    filter (\<lambda>c. cl_id c = dataStartIndex rollup + 2 * i)
      (addedClaims (fst (processDefiProofs env rollup offchain block clock))) = [c] \<and>
    cl_fee c = od_txFee d - drop_bit 1 (od_txFee d) \<and>
    (\<forall>j < length (bridgeIds rollup).
        bridgeIds rollup ! j = bid_toBuffer (od_bridgeId d) \<and>
        (\<forall>j' < j. bridgeIds rollup ! j' \<noteq> bid_toBuffer (od_bridgeId d)) \<longrightarrow>
        cl_interactionNonce c = int j + int (rollupId rollup * NUM_BRIDGE_CALLS_PER_BLOCK env))"
proof -
  have "snd (processInnerProofs env rollup offchain block clock 0 0 (innerProofData rollup)) = None"
    using assms(1) by (rule loop_no_error)
  from loop_claim_at[OF this assms(2,3)] obtain d where
    d: "readOffchainDefiDepositData env offchain (offChainIndexAt (innerProofData rollup) i) = Some d"
    and f: "filter (\<lambda>c. cl_id c = dataStartIndex rollup + i * 2)
      (addedClaims (fst (processInnerProofs env rollup offchain block clock 0 0 (innerProofData rollup))))
      = [defiDepositClaim env rollup i (innerProofData rollup ! i) d (clock i)]"
    by auto
  let ?c = "defiDepositClaim env rollup i (innerProofData rollup ! i) d (clock i)"
  have fee: "cl_fee ?c = od_txFee d - drop_bit 1 (od_txFee d)"
    by (simp add: defiDepositClaim_def Let_def)
  have nonce: "\<forall>j < length (bridgeIds rollup).
        bridgeIds rollup ! j = bid_toBuffer (od_bridgeId d) \<and>
        (\<forall>j' < j. bridgeIds rollup ! j' \<noteq> bid_toBuffer (od_bridgeId d)) \<longrightarrow>
        cl_interactionNonce ?c = int j + int (rollupId rollup * NUM_BRIDGE_CALLS_PER_BLOCK env)"
    by (auto simp: defiDepositClaim_def Let_def findIndex_def
        findIndexFrom_first[where i = 0 and P = "\<lambda>bridge. bridge = bid_toBuffer (od_bridgeId d)"])
  from d f fee nonce show ?thesis
    by (simp add: processDefiProofs_claims mult.commute)
qed

text \<open>
  Witness for C5: the defi deposit at position 1 of the example rollup, on the bridge of
  slot 2 with a tx fee of 10, adds one claim at leaf 2 with fee 5 and nonce \<open>2 + 2 * 4\<close>.
\<close>

theorem defi_deposit_claim_witness:
  "offchainDecodable exEnv [[20]] 0 (innerProofData exRollup) \<and>
   1 < length (innerProofData exRollup) \<and>
   proofId (innerProofData exRollup ! 1) = DEFI_DEPOSIT \<and>
   bridgeIds exRollup ! 2 = bid_toBuffer (od_bridgeId exOffchain) \<and>
   (\<exists>c. filter (\<lambda>c. cl_id c = 2)
           (addedClaims (fst (processDefiProofs exEnv exRollup [[20]] exBlock exClock))) = [c] \<and>
        cl_fee c = 5 \<and> cl_interactionNonce c = 10)"
proof -
  have h2: "1 < length (innerProofData exRollup)" by (simp add: exLength)
  have h3: "proofId (innerProofData exRollup ! 1) = DEFI_DEPOSIT"
    by simp
  have b: "bridgeIds exRollup ! 2 = bid_toBuffer (od_bridgeId exOffchain)"
    by (simp add: exOffchain_def)
  have b': "\<forall>j' < 2. bridgeIds exRollup ! j' \<noteq> bid_toBuffer (od_bridgeId exOffchain)"
    by (simp add: exOffchain_def less_Suc_eq numeral_2_eq_2)
  from defi_deposit_claim[OF exDecodable h2 h3, of exBlock exClock]
  obtain d c where
    d: "readOffchainDefiDepositData exEnv [[20]] (offChainIndexAt (innerProofData exRollup) 1) = Some d"
    and f: "filter (\<lambda>c. cl_id c = dataStartIndex exRollup + 2 * 1)
      (addedClaims (fst (processDefiProofs exEnv exRollup [[20]] exBlock exClock))) = [c]"
    and fee: "cl_fee c = od_txFee d - drop_bit 1 (od_txFee d)"
    and n: "\<forall>j < length (bridgeIds exRollup).
        bridgeIds exRollup ! j = bid_toBuffer (od_bridgeId d) \<and>
        (\<forall>j' < j. bridgeIds exRollup ! j' \<noteq> bid_toBuffer (od_bridgeId d)) \<longrightarrow>
        cl_interactionNonce c = int j + int (rollupId exRollup * NUM_BRIDGE_CALLS_PER_BLOCK exEnv)"
    by blast
  from d have dd: "d = exOffchain" by (simp add: exRead)
  have "cl_fee c = 5" using fee by (simp add: dd exOffchain_def drop_bit_eq_div)
  moreover have "cl_interactionNonce c = 10"
    using n[rule_format, of 2] b b' by (simp add: dd)
  moreover have "filter (\<lambda>c. cl_id c = 2)
           (addedClaims (fst (processDefiProofs exEnv exRollup [[20]] exBlock exClock))) = [c]"
    using f by (simp add: numeral_2_eq_2)
  ultimately show ?thesis using exDecodable h2 h3 b by blast
qed





text \<open>
  C7. \<open>confirmOrAddRollupToDb\<close> looks the rollup proof up by the rollup hash. If it is
  found, the one write is \<open>confirmMined\<close> with the rollup id, the block's gas used, gas
  price, creation time, tx hash and interaction results, the ids of the stored proof's
  txs and the asset metrics; and one settlement duration \<open>block.created - tx.created\<close>
  is emitted for each non-padding inner proof whose tx id is among the stored proof's
  txs. If it is not found, the one write is \<open>addRollup\<close> of a rollup whose proof has the
  rollup hash as id and one tx for each non-padding inner proof, in order, with the tx
  type derived from it, and which carries the block's gas used and gas price, the
  concatenated interaction results and the asset metrics.
\<close>

theorem confirmOrAddRollupToDb_branches:
  "case db_getRollupProof reads (rollupHash rollup) of
     Some rollupProof \<Rightarrow>
       fst (confirmOrAddRollupToDb env reads rollup offchain block) =
         [ConfirmMined (rollupId rollup) (gasUsed block) (gasPrice block) (created block)
            (txHash block) (interactionResult block) (map tx_id (rp_txs rollupProof))
            (getAssetMetrics env reads rollup (interactionResult block))] \<and>
       durationsOf (snd (confirmOrAddRollupToDb env reads rollup offchain block)) =
         map (\<lambda>tx. created block - tx_created tx)
           (List.map_filter (\<lambda>inner. find (\<lambda>tx. tx_id tx = txId inner) (rp_txs rollupProof))
              (filter (\<lambda>p. \<not> isPadding p) (innerProofData rollup)))
   | None \<Rightarrow>
       (\<exists>dao. fst (confirmOrAddRollupToDb env reads rollup offchain block) = [AddRollup dao] \<and>
          r_id dao = rollupId rollup \<and>
          rp_id (r_rollupProof dao) = rollupHash rollup \<and>
          map tx_id (rp_txs (r_rollupProof dao))
            = map txId (filter (\<lambda>p. \<not> isPadding p) (innerProofData rollup)) \<and>
          map tx_txType (rp_txs (r_rollupProof dao))
            = map (getTxTypeFromInnerProofData env)
                (filter (\<lambda>p. \<not> isPadding p) (innerProofData rollup)) \<and>
          r_gasUsed dao = gasUsed block \<and>
          r_gasPrice dao = toBufferBE (gasPrice block) 32 \<and>
          r_interactionResult dao = concat (map din_toBuffer (interactionResult block)) \<and>
          r_assetMetrics dao = getAssetMetrics env reads rollup (interactionResult block))"
proof (cases "db_getRollupProof reads (rollupHash rollup)")
  case None
  then show ?thesis
    by (simp add: confirmOrAddRollupToDb_def Let_def rebuiltTxs_def map_mapWithIndex
        innerProofDataToTxDao_def mapWithIndex_const)
next
  case (Some rollupProof)
  then show ?thesis
    by (simp add: confirmOrAddRollupToDb_def Let_def durationsOf_append durations_settlement)
qed

text \<open>
  Witness for C7: the example rollup with its proof stored (one tx, created at 400, block
  created at 1000) and with no proof stored.
\<close>

theorem confirmOrAddRollupToDb_branches_witness:
  "db_getRollupProof exReadsFound (rollupHash exRollup) = Some exStoredProof \<and>
   (\<exists>metrics. fst (confirmOrAddRollupToDb exEnv exReadsFound exRollup [[20]] exBlock) =
      [ConfirmMined 2 1000000 30 1000 [8] [] [[7]] metrics]) \<and>
   durationsOf (snd (confirmOrAddRollupToDb exEnv exReadsFound exRollup [[20]] exBlock)) = [600] \<and>
   db_getRollupProof exReads (rollupHash exRollup) = None \<and>
   (\<exists>dao. fst (confirmOrAddRollupToDb exEnv exReads exRollup [[20]] exBlock) = [AddRollup dao] \<and>
      map tx_id (rp_txs (r_rollupProof dao)) = [[7]] \<and> r_gasUsed dao = 1000000)"
proof -
  have f: "db_getRollupProof exReadsFound (rollupHash exRollup) = Some exStoredProof"
    by (simp add: exReadsFound_def)
  have n: "db_getRollupProof exReads (rollupHash exRollup) = None"
    by (simp add: exReads_def)
  from confirmOrAddRollupToDb_branches[where reads = exReadsFound and rollup = exRollup and env = exEnv
      and offchain = "[[20]]" and block = exBlock, unfolded f option.case]
  have a: "(\<exists>metrics. fst (confirmOrAddRollupToDb exEnv exReadsFound exRollup [[20]] exBlock) =
      [ConfirmMined 2 1000000 30 1000 [8] [] [[7]] metrics]) \<and>
   durationsOf (snd (confirmOrAddRollupToDb exEnv exReadsFound exRollup [[20]] exBlock)) = [600]"
    by (simp add: exStoredProof_def map_filter_simps)
  from confirmOrAddRollupToDb_branches[where reads = exReads and rollup = exRollup and env = exEnv
      and offchain = "[[20]]" and block = exBlock, unfolded n option.case]
  have b: "\<exists>dao. fst (confirmOrAddRollupToDb exEnv exReads exRollup [[20]] exBlock) = [AddRollup dao] \<and>
      map tx_id (rp_txs (r_rollupProof dao)) = [[7]] \<and> r_gasUsed dao = 1000000"
    by auto
  from f n a b show ?thesis by simp
qed

text \<open>
  C8. \<open>syncStateFromInitFiles\<close> leaves the tree store as it is and writes nothing to the
  relational store when there is no account data file, when the file holds no account,
  or when one of the three expected roots is empty. Otherwise it populates the trees;
  if the three computed roots are the expected ones it adds the account rows derived
  from the accounts, and if one of them differs it throws and adds no row.
\<close>

theorem syncStateFromInitFiles_outcomes:
  "case getAccountDataFile h chainId of
     None \<Rightarrow> syncStateFromInitFiles h chainId db
               = \<lparr>init_db = db, init_dbOps = [], init_thrown = None\<rparr>
   | Some file \<Rightarrow>
       (let accounts = readAccountTreeData h file; roots = getInitRoots h chainId in
        if accounts = [] \<or> initDataRoot roots = [] \<or> initNullRoot roots = []
           \<or> initRootsRoot roots = []
        then syncStateFromInitFiles h chainId db
               = \<lparr>init_db = db, init_dbOps = [], init_thrown = None\<rparr>
        else
          (let p1 = populateDataAndRootsTrees h accounts db;
               p2 = populateNullifierTree h accounts (snd p1)
           in if initDataRoot roots = fst (fst p1) \<and> initRootsRoot roots = snd (fst p1)
                 \<and> initNullRoot roots = fst p2
              then syncStateFromInitFiles h chainId db
                     = \<lparr>init_db = snd p2,
                        init_dbOps = [AddAccounts (map accountDaoOf accounts)],
                        init_thrown = None\<rparr>
              else init_thrown (syncStateFromInitFiles h chainId db) \<noteq> None
                   \<and> init_dbOps (syncStateFromInitFiles h chainId db) = []))"
  by (auto simp: syncStateFromInitFiles_def Let_def split: option.splits)

text \<open>
  Witness for C8: a chain without init file, a chain whose computed roots are the
  expected ones, and the same chain with another expected null root.
\<close>

theorem syncStateFromInitFiles_outcomes_witness:
  "syncStateFromInitFiles exHelpers 5 exDb = \<lparr>init_db = exDb, init_dbOps = [], init_thrown = None\<rparr> \<and>
   init_dbOps (syncStateFromInitFiles exHelpers 1 exDb) = [AddAccounts [accountDaoOf exAccount]] \<and>
   init_thrown (syncStateFromInitFiles exHelpers 1 exDb) = None \<and>
   init_thrown (syncStateFromInitFiles exHelpersMismatch 1 exDb) \<noteq> None \<and>
   init_dbOps (syncStateFromInitFiles exHelpersMismatch 1 exDb) = []"
proof -
  from syncStateFromInitFiles_outcomes[of exHelpers 5 exDb]
  have a: "syncStateFromInitFiles exHelpers 5 exDb = \<lparr>init_db = exDb, init_dbOps = [], init_thrown = None\<rparr>"
    by (simp add: exHelpers_def)
  from syncStateFromInitFiles_outcomes[of exHelpers 1 exDb]
  have b: "init_dbOps (syncStateFromInitFiles exHelpers 1 exDb) = [AddAccounts [accountDaoOf exAccount]] \<and>
   init_thrown (syncStateFromInitFiles exHelpers 1 exDb) = None"
    by (simp add: exHelpers_def Let_def)
  from syncStateFromInitFiles_outcomes[of exHelpersMismatch 1 exDb]
  have c: "init_thrown (syncStateFromInitFiles exHelpersMismatch 1 exDb) \<noteq> None \<and>
   init_dbOps (syncStateFromInitFiles exHelpersMismatch 1 exDb) = []"
    by (simp add: exHelpers_def exHelpersMismatch_def Let_def)
  from a b c show ?thesis by simp
qed

text \<open>
  C9. Before a pipeline has been created, \<open>getNextPublishTime\<close> throws nothing and returns
  timeouts with an undefined base timeout and no bridge timeout, whereas
  \<open>getTxPoolProfile\<close> dereferences the undefined pipeline and throws.
\<close>

theorem getNextPublishTime_without_pipeline:
  "getNextPublishTime None = Inr \<lparr>baseTimeout = None, bridgeTimeouts = Map.empty\<rparr>
   \<and> getTxPoolProfile None = Inl TypeError"
  by (simp add: getNextPublishTime_def getTxPoolProfile_def)

end
